theory Spec2Isabelle
  imports Main
begin

section \<open>Word wrapping: \<open>PyPortal.wrap_nicely\<close>\<close>

text \<open>
  Python strings are modelled as \<open>string\<close>; one element stands for one character of the
  Python string, so \<open>length\<close> is Python's \<open>len\<close>. \<open>max_chars\<close> is a Python integer.
\<close>

text \<open>
  \<open>str.split(' ')\<close>: the pieces between single spaces; \<open>n\<close> spaces give \<open>n + 1\<close> pieces,
  some of them possibly empty. The second argument is the piece being read.
\<close>

fun split_from :: "string \<Rightarrow> string \<Rightarrow> string list" where
  "split_from cur [] = [cur]"
| "split_from cur (c # cs) =
     (if c = CHR '' '' then cur # split_from [] cs else split_from (cur @ [c]) cs)"

definition str_split :: "string \<Rightarrow> string list" where
  "str_split string = split_from [] string"

text \<open>
  The \<open>for w in words\<close> loop of \<open>wrap_nicely\<close>, threading \<open>the_lines\<close> and \<open>the_line\<close>.
\<close>

fun wrap_loop :: "int \<Rightarrow> string list \<Rightarrow> string list \<Rightarrow> string \<Rightarrow> string list \<times> string" where
  "wrap_loop max_chars [] the_lines the_line = (the_lines, the_line)"
| "wrap_loop max_chars (w # ws) the_lines the_line =
     (if int (length (the_line @ '' '' @ w)) \<le> max_chars
      then wrap_loop max_chars ws the_lines (the_line @ '' '' @ w)
      else wrap_loop max_chars ws (the_lines @ [the_line]) ([] @ w))"

definition wrap_nicely :: "string \<Rightarrow> int \<Rightarrow> string list" where
  "wrap_nicely string max_chars =
     (case wrap_loop max_chars (str_split string) [] [] of
        (the_lines, the_line) \<Rightarrow>
          if the_line \<noteq> [] then the_lines @ [the_line] else the_lines)"

text \<open>\<open>sep.join(strings)\<close>.\<close>

fun str_join :: "string \<Rightarrow> string list \<Rightarrow> string" where
  "str_join sep [] = []"
| "str_join sep [w] = w"
| "str_join sep (w # v # ws) = w @ sep @ str_join sep (v # ws)"

section \<open>Python values, errors and the JSON path walk\<close>

text \<open>
  The values the module handles at run time: configuration arguments, parsed JSON
  documents and extracted values. JSON numbers are integers here; an object is the list
  of its members, each key once.
\<close>

datatype pyval =
    PNone
  | PBool bool
  | PInt int
  | PStr string
  | PList "pyval list"
  | PTuple "pyval list"
  | PDict "(string \<times> pyval) list"

text \<open>
  The exceptions of the module and of its collaborators. \<open>KeyError\<close> carries the key
  (\<open>error.args[0]\<close>); \<open>ValueError\<close> carries \<open>args[0]\<close> when it is a message string.
  \<open>UnicodeError\<close>, raised for bytes that are no text, is a subclass of \<open>ValueError\<close> and
  has no arguments. \<open>ReloadException\<close> is what \<open>supervisor.reload()\<close> ends the running
  program with.
\<close>

datatype exn =
    ValueError "string option"
  | UnicodeError
  | KeyError pyval
  | IndexError
  | TypeError
  | AttributeError
  | OSError
  | RuntimeError
  | MemoryError
  | ReloadException

text \<open>What \<open>except ValueError\<close> catches, and \<open>error.args[0]\<close> of it when that is a string.\<close>

definition is_value_error :: "exn \<Rightarrow> bool" where
  "is_value_error e = (case e of ValueError m \<Rightarrow> True | UnicodeError \<Rightarrow> True | _ \<Rightarrow> False)"

definition first_arg :: "exn \<Rightarrow> string option" where
  "first_arg e = (case e of ValueError m \<Rightarrow> m | _ \<Rightarrow> None)"

text \<open>Truth value of an object, as tested by \<open>if x:\<close>.\<close>

fun truthy :: "pyval \<Rightarrow> bool" where
  "truthy PNone = False"
| "truthy (PBool b) = b"
| "truthy (PInt i) = (i \<noteq> 0)"
| "truthy (PStr s) = (s \<noteq> [])"
| "truthy (PList xs) = (xs \<noteq> [])"
| "truthy (PTuple xs) = (xs \<noteq> [])"
| "truthy (PDict kvs) = (kvs \<noteq> [])"

text \<open>\<open>xs[i]\<close> on a sequence: negative indices count from the end, out of range raises.\<close>

definition py_index :: "'a list \<Rightarrow> int \<Rightarrow> exn + 'a" where
  "py_index xs i =
     (if 0 \<le> i then
        (if i < int (length xs) then Inr (xs ! nat i) else Inl IndexError)
      else
        (if - i \<le> int (length xs) then Inr (xs ! nat (int (length xs) + i))
         else Inl IndexError))"

text \<open>\<open>value[x]\<close> for every kind of value and key.\<close>

fun subscript :: "pyval \<Rightarrow> pyval \<Rightarrow> exn + pyval" where
  "subscript (PDict kvs) (PStr k) =
     (case map_of kvs k of None \<Rightarrow> Inl (KeyError (PStr k)) | Some v \<Rightarrow> Inr v)"
| "subscript (PDict kvs) (PList xs) = Inl TypeError"
| "subscript (PDict kvs) (PDict xs) = Inl TypeError"
| "subscript (PDict kvs) k = Inl (KeyError k)"
| "subscript (PList xs) (PInt i) = py_index xs i"
| "subscript (PList xs) (PBool b) = py_index xs (if b then 1 else 0)"
| "subscript (PTuple xs) (PInt i) = py_index xs i"
| "subscript (PTuple xs) (PBool b) = py_index xs (if b then 1 else 0)"
| "subscript (PStr s) (PInt i) = map_sum id (\<lambda>c. PStr [c]) (py_index s i)"
| "subscript (PStr s) (PBool b) = map_sum id (\<lambda>c. PStr [c]) (py_index s (if b then 1 else 0))"
| "subscript (PList xs) k = Inl TypeError"
| "subscript (PTuple xs) k = Inl TypeError"
| "subscript (PStr s) k = Inl TypeError"
| "subscript PNone k = Inl TypeError"
| "subscript (PBool b) k = Inl TypeError"
| "subscript (PInt i) k = Inl TypeError"

text \<open>The elements a \<open>for\<close> loop over the value visits.\<close>

fun py_iter :: "pyval \<Rightarrow> exn + pyval list" where
  "py_iter (PList xs) = Inr xs"
| "py_iter (PTuple xs) = Inr xs"
| "py_iter (PStr s) = Inr (map (\<lambda>c. PStr [c]) s)"
| "py_iter (PDict kvs) = Inr (map (\<lambda>kv. PStr (fst kv)) kvs)"
| "py_iter v = Inl TypeError"

text \<open>\<open>PyPortal._json_traverse\<close>: the loop over the keys, then the function.\<close>

fun traverse_keys :: "pyval \<Rightarrow> pyval list \<Rightarrow> exn + pyval" where
  "traverse_keys val [] = Inr val"
| "traverse_keys val (x # xs) =
     (case subscript val x of Inl e \<Rightarrow> Inl e | Inr v \<Rightarrow> traverse_keys v xs)"

definition json_traverse :: "pyval \<Rightarrow> pyval \<Rightarrow> exn + pyval" where
  "json_traverse json path =
     (case py_iter path of Inl e \<Rightarrow> Inl e | Inr keys \<Rightarrow> traverse_keys json keys)"

section \<open>The constructor's handling of \<open>json_path\<close>\<close>

definition is_list_or_tuple :: "pyval \<Rightarrow> bool" where
  "is_list_or_tuple v = (case v of PList xs \<Rightarrow> True | PTuple xs \<Rightarrow> True | _ \<Rightarrow> False)"

text \<open>
  Lines 145 to 151 of \<open>__init__\<close>: the value stored in \<open>self._json_path\<close>, or the
  exception of \<open>json_path[0]\<close>.
\<close>

definition init_json_path :: "pyval \<Rightarrow> exn + pyval" where
  "init_json_path json_path =
     (if truthy json_path then
        (case subscript json_path (PInt 0) of
           Inl e \<Rightarrow> Inl e
         | Inr first \<Rightarrow>
             if is_list_or_tuple first then Inr json_path else Inr (PTuple [json_path]))
      else Inr PNone)"

section \<open>The PyPortal object and the device around it\<close>

text \<open>
  What the module prints: one constructor for each \<open>print\<close> statement, carrying the
  values printed.
\<close>

datatype message =
    SetBackgroundTo "string option"
  | MakingTextArea string
  | FetchingStreamFrom string
  | Headers "(string \<times> string) list"
  | SavingDataTo string
  | ReadBytes int int
  | Dot
  | CreatedFile string
  | ConnectingToAP
  | FreeMem
  | UsingLocalfile
  | RetrievingData
  | ReplyIsOK
  | Body string
  | CouldntParseJson string
  | ErrorFindingImage string
  | OriginalURL pyval
  | ConvertURL string
  | ErrorDisplayingCached string
  | DrawingText pyval
  | WrappingText

text \<open>
  What the object does to its collaborators, in order: printing, the status NeoPixel,
  \<open>self._esp.connect\<close>, \<open>requests.get(url, stream)\<close>, opening and closing the background
  file, the success callback and \<open>supervisor.reload\<close>.
\<close>

datatype event =
    Print message
  | NeoFill "nat \<times> nat \<times> nat"
  | EspConnect
  | HttpGet string bool
  | BgFileOpen nat string
  | BgFileClose nat
  | Callback pyval
  | SupervisorReload

text \<open>
  Display objects are compared by identity, so each carries the number it was created
  with. A text area gets its colour and position after it is created.
\<close>

datatype widget =
    BgGroup
  | QrGroup
  | Caption string
  | Sprite nat
  | TextArea string "int option" "(int \<times> int) option"

datatype drawable = Obj (ident: nat) (widget: widget)

definition same_object :: "drawable \<Rightarrow> drawable \<Rightarrow> bool" where
  "same_object a b = (ident a = ident b)"

text \<open>What one call of \<open>self._esp.connect(settings)\<close> does.\<close>

datatype conn = Connects | StaysDown | ConnRaises exn

text \<open>
  The fields of the object that the modelled methods use, then the device: the event
  trace, the files by name, the counters for new objects and file handles, the state of
  the WiFi coprocessor and what its coming \<open>connect\<close> calls will do (after the last one
  listed it stays down). \<open>text_areas\<close> is \<open>self._text\<close>, with \<open>[]\<close> for \<open>None\<close>; the groups are
  listed bottom first, so \<open>pop()\<close> takes the last element.
\<close>

record pyportal =
  debug :: bool
  url :: string
  json_path :: pyval
  regexp_path :: pyval
  success_callback :: bool
  neopix :: bool
  uselocal :: bool
  splash :: "drawable list"
  bg_group :: "drawable list"
  bg_file :: "nat option"
  default_bg :: "string option"
  text_font :: bool
  text_areas :: "drawable option list"
  text_color :: "int list"
  text_position :: "(int \<times> int) option list"
  text_wrap :: "int list"
  text_maxlen :: "int list"
  image_json_path :: pyval
  trace :: "event list"
  files :: "string \<Rightarrow> string option"
  next_id :: nat
  next_handle :: nat
  esp_connected :: bool
  esp_script :: "conn list"

text \<open>
  A response of the requests library: what its property \<open>text\<close> gives or raises each time
  it is read, what \<open>json()\<close> returns or raises, the headers, and the chunks of
  \<open>iter_content\<close> for a chunk size.
\<close>

record response =
  resp_text :: "exn + string"
  resp_json :: "exn + pyval"
  resp_headers :: "(string \<times> string) list"
  iter_content :: "int \<Rightarrow> (exn + string) list"

text \<open>
  The collaborators that are not part of the module, as parameters: the JSON parser,
  \<open>ure.search(regexp, text).group(1)\<close>, \<open>requests.get\<close>, the built-ins \<open>int\<close>, \<open>str\<close> and
  \<open>'{:,d}'.format\<close>, what \<open>displayio.OnDiskBitmap\<close> raises on the contents of a file,
  whether files can be written, and what the success callback raises.
\<close>

record world =
  json_loads :: "string \<Rightarrow> exn + pyval"
  re_search_group :: "pyval \<Rightarrow> string \<Rightarrow> exn + pyval"
  http_get :: "string \<Rightarrow> bool \<Rightarrow> exn + response"
  py_int :: "pyval \<Rightarrow> exn + int"
  py_str :: "pyval \<Rightarrow> string"
  format_d :: "int \<Rightarrow> string"
  on_disk_bitmap :: "string \<Rightarrow> exn option"
  fs_writable :: bool
  callback :: "pyval \<Rightarrow> exn option"

text \<open>
  The object \<open>r\<close> of \<open>fetch\<close>: a \<open>Fake_Requests\<close> with the text of the local file, or a
  response of the library. \<open>Fake_Requests.text\<close> is a plain attribute and
  \<open>Fake_Requests.json\<close> is \<open>json.loads\<close> of it.
\<close>

datatype reply = Fake_Requests string | Response response

definition reply_text :: "reply \<Rightarrow> exn + string" where
  "reply_text r = (case r of Fake_Requests t \<Rightarrow> Inr t | Response resp \<Rightarrow> resp_text resp)"

definition reply_json :: "world \<Rightarrow> reply \<Rightarrow> exn + pyval" where
  "reply_json w r =
     (case r of Fake_Requests t \<Rightarrow> json_loads w t | Response resp \<Rightarrow> resp_json resp)"

definition IMAGE_CONVERTER_SERVICE :: string where
  "IMAGE_CONVERTER_SERVICE =
     ''http://res.cloudinary.com/schmarty/image/fetch/w_320,h_240,c_fill,f_bmp/''"

definition LOCALFILE :: string where
  "LOCALFILE = ''local.txt''"

text \<open>
  A method is a function from the state to its result and the state it leaves; an
  exception leaves the state as it was when raised.
\<close>

type_synonym 'a run = "pyportal \<Rightarrow> (exn + 'a) \<times> pyportal"

definition and_then :: "'a run \<Rightarrow> ('a \<Rightarrow> 'b run) \<Rightarrow> 'b run" where
  "and_then m f s = (case m s of (Inl e, s') \<Rightarrow> (Inl e, s') | (Inr a, s') \<Rightarrow> f a s')"

definition emit :: "event \<Rightarrow> pyportal \<Rightarrow> pyportal" where
  "emit e s = s\<lparr>trace := trace s @ [e]\<rparr>"

definition print :: "message \<Rightarrow> pyportal \<Rightarrow> pyportal" where
  "print m s = emit (Print m) s"

definition neo_status :: "nat \<times> nat \<times> nat \<Rightarrow> pyportal \<Rightarrow> pyportal" where
  "neo_status v s = (if neopix s then emit (NeoFill v) s else s)"

text \<open>\<open>xs[index]\<close> for an index that is not negative.\<close>

definition py_nth :: "'a list \<Rightarrow> nat \<Rightarrow> exn + 'a" where
  "py_nth xs i = (if i < length xs then Inr (xs ! i) else Inl IndexError)"

section \<open>\<open>PyPortal.set_background\<close>\<close>

text \<open>
  \<open>pop()\<close> on the empty group raises \<open>IndexError\<close>, which the method ignores. A file
  object is true whether open or closed, so any earlier file is closed again. The
  refresh of the display and \<open>gc.collect()\<close> change nothing here.
\<close>

definition set_background :: "world \<Rightarrow> string option \<Rightarrow> unit run" where
  "set_background w filename s =
     (let s1 = print (SetBackgroundTo filename) s;
          s2 = s1\<lparr>bg_group := butlast (bg_group s1)\<rparr>
      in (case filename of
            None \<Rightarrow> (Inr (), s2)
          | Some name \<Rightarrow>
              if name = [] then (Inr (), s2)
              else
                (let s3 = (case bg_file s2 of None \<Rightarrow> s2 | Some h \<Rightarrow> emit (BgFileClose h) s2)
                 in (case files s3 name of
                       None \<Rightarrow> (Inl OSError, s3)
                     | Some content \<Rightarrow>
                         (let h = next_handle s3;
                              s4 = (emit (BgFileOpen h name) s3)
                                     \<lparr>bg_file := Some h, next_handle := Suc h\<rparr>
                          in (case on_disk_bitmap w content of
                                Some e \<Rightarrow> (Inl e, s4)
                              | None \<Rightarrow>
                                  (Inr (),
                                   s4\<lparr>bg_group := bg_group s4 @ [Obj (next_id s4) (Sprite h)],
                                      next_id := Suc (next_id s4)\<rparr>)))))))"

text \<open>
  Reading a trace: the background file handles open after it, starting from the
  handles \<open>H\<close>, and whether every opening in it found no handle open.
\<close>

fun open_after :: "nat set \<Rightarrow> event list \<Rightarrow> nat set" where
  "open_after H [] = H"
| "open_after H (BgFileOpen h n # es) = open_after (insert h H) es"
| "open_after H (BgFileClose h # es) = open_after (H - {h}) es"
| "open_after H (e # es) = open_after H es"

fun opens_clean :: "nat set \<Rightarrow> event list \<Rightarrow> bool" where
  "opens_clean H [] = True"
| "opens_clean H (BgFileOpen h n # es) = (H = {} \<and> opens_clean {h} es)"
| "opens_clean H (BgFileClose h # es) = opens_clean (H - {h}) es"
| "opens_clean H (e # es) = opens_clean H es"

text \<open>A sequence of calls; a caller that catches the exception goes on with the next.\<close>

fun set_backgrounds :: "world \<Rightarrow> string option list \<Rightarrow> pyportal \<Rightarrow> pyportal" where
  "set_backgrounds w [] s = s"
| "set_backgrounds w (f # fs) s = set_backgrounds w fs (snd (set_background w f s))"

section \<open>\<open>PyPortal.set_text\<close>\<close>

text \<open>\<open>string[:n]\<close>.\<close>

definition py_slice_to :: "string \<Rightarrow> int \<Rightarrow> string" where
  "py_slice_to string n =
     (if 0 \<le> n then take (nat n) string else take (nat (int (length string) + n)) string)"

text \<open>
  The \<open>while len(self.splash)\<close> loop: pops until the slot's text area came off, and
  collects the others in \<open>items\<close>. Returns what is left of the group, and \<open>items\<close>.
\<close>

function pop_until :: "drawable \<Rightarrow> drawable list \<Rightarrow> drawable list \<Rightarrow> drawable list \<times> drawable list" where
  "pop_until t sp items =
     (if length sp \<noteq> 0 then
        (if same_object (last sp) t then (butlast sp, items)
         else pop_until t (butlast sp) (items @ [last sp]))
      else (sp, items))"
  by pat_completeness auto
termination
  by (relation "measure (\<lambda>(t, sp, items). length sp)") auto

declare pop_until.simps [simp del]

text \<open>
  The lines both branches of \<open>set_text\<close> share: create the text area, store it in the
  slot, set colour and position, append it to the group; then the \<open>for g in items\<close> loop.
\<close>

definition place_text_area :: "string \<Rightarrow> nat \<Rightarrow> drawable list \<Rightarrow> unit run" where
  "place_text_area string index items s =
     (let n = next_id s;
          s1 = s\<lparr>text_areas := (text_areas s)[index := Some (Obj n (TextArea string None None))],
                 next_id := Suc n\<rparr>
      in (case py_nth (text_color s1) index of
            Inl e \<Rightarrow> (Inl e, s1)
          | Inr c \<Rightarrow>
              (let s2 = s1\<lparr>text_areas :=
                            (text_areas s1)[index := Some (Obj n (TextArea string (Some c) None))]\<rparr>
               in (case py_nth (text_position s2) index of
                     Inl e \<Rightarrow> (Inl e, s2)
                   | Inr None \<Rightarrow> (Inl TypeError, s2)
                   | Inr (Some pos) \<Rightarrow>
                       (let t = Obj n (TextArea string (Some c) (Some pos))
                        in (Inr (),
                            s2\<lparr>text_areas := (text_areas s2)[index := Some t],
                               splash := (splash s2 @ [t]) @ items\<rparr>))))))"

definition set_text :: "world \<Rightarrow> pyval \<Rightarrow> nat \<Rightarrow> unit run" where
  "set_text w val index s =
     (if text_font s then
        (case py_nth (text_maxlen s) index of
           Inl e \<Rightarrow> (Inl e, s)
         | Inr maxlen \<Rightarrow>
             (let string = (if maxlen \<noteq> 0 then py_slice_to (py_str w val) maxlen
                            else py_str w val)
              in (case py_nth (text_areas s) index of
                    Inl e \<Rightarrow> (Inl e, s)
                  | Inr (Some t) \<Rightarrow>
                      (case pop_until t (splash s) [] of
                         (sp, items) \<Rightarrow>
                           place_text_area string index items (s\<lparr>splash := sp\<rparr>))
                  | Inr None \<Rightarrow>
                      (case py_nth (text_position s) index of
                         Inl e \<Rightarrow> (Inl e, s)
                       | Inr None \<Rightarrow> (Inr (), s)
                       | Inr (Some pos) \<Rightarrow>
                           place_text_area string index []
                             (print (MakingTextArea string) s)))))
      else (Inr (), s))"

section \<open>\<open>PyPortal.wget\<close> and \<open>PyPortal._connect_esp\<close>\<close>

text \<open>
  The loop over the chunks of \<open>r.iter_content\<close>: each is written to the file and counted
  off \<open>remaining\<close>; the loop ends early when nothing remains. A chunk that fails to arrive
  raises inside the \<open>with\<close> block, which closes the file and lets the exception pass.
\<close>

fun wget_chunks :: "string \<Rightarrow> int \<Rightarrow> int \<Rightarrow> (exn + string) list \<Rightarrow> unit run" where
  "wget_chunks filename content_length remaining [] s = (Inr (), s)"
| "wget_chunks filename content_length remaining (Inl e # chunks) s = (Inl e, s)"
| "wget_chunks filename content_length remaining (Inr i # chunks) s =
     (let s1 = neo_status (0, 100, 100) s;
          remaining' = remaining - int (length i);
          s2 = s1\<lparr>files := (files s1)
                  (filename := Some (case files s1 filename of None \<Rightarrow> i | Some d \<Rightarrow> d @ i))\<rparr>;
          s3 = (if debug s2 then print (ReadBytes (content_length - remaining') remaining') s2
                else print Dot s2)
      in if remaining' = 0 then (Inr (), s3)
         else wget_chunks filename content_length remaining' chunks
                (neo_status (100, 100, 0) s3))"

definition wget :: "world \<Rightarrow> string \<Rightarrow> string \<Rightarrow> unit run" where
  "wget w url' filename s =
     (let s1 = emit (HttpGet url' True)
                 (neo_status (100, 100, 0) (print (FetchingStreamFrom url') s))
      in (case http_get w url' True of
            Inl e \<Rightarrow> (Inl e, s1)
          | Inr r \<Rightarrow>
              (let s2 = (if debug s1 then print (Headers (resp_headers r)) s1 else s1)
               in (case map_of (resp_headers r) ''content-length'' of
                     None \<Rightarrow> (Inl (KeyError (PStr ''content-length'')), s2)
                   | Some len \<Rightarrow>
                       (case py_int w (PStr len) of
                          Inl e \<Rightarrow> (Inl e, s2)
                        | Inr content_length \<Rightarrow>
                            (let s3 = print (SavingDataTo filename) s2
                             in if \<not> fs_writable w then (Inl OSError, s3)
                                else
                                  (case wget_chunks filename content_length content_length
                                          (iter_content r (min content_length 12000))
                                          (s3\<lparr>files := (files s3)(filename := Some [])\<rparr>) of
                                     (Inl e, s4) \<Rightarrow> (Inl e, s4)
                                   | (Inr u, s4) \<Rightarrow>
                                       (Inr (),
                                        neo_status (0, 0, 0)
                                          (print (CreatedFile filename) s4)))))))))"

text \<open>
  The \<open>while not self._esp.is_connected\<close> loop, over what the coming \<open>connect\<close> calls
  will do. With none left and no connection the loop runs forever: \<open>None\<close>.
\<close>

fun connect_loop :: "conn list \<Rightarrow> pyportal \<Rightarrow> ((exn + unit) \<times> pyportal) option" where
  "connect_loop [] s = (if esp_connected s then Some (Inr (), s\<lparr>esp_script := []\<rparr>) else None)"
| "connect_loop (c # script) s =
     (if esp_connected s then Some (Inr (), s\<lparr>esp_script := c # script\<rparr>)
      else
        (let s1 = emit EspConnect
                    (neo_status (100, 0, 0) (if debug s then print ConnectingToAP s else s))
         in (case c of
               ConnRaises e \<Rightarrow> Some (Inl e, s1\<lparr>esp_script := script\<rparr>)
             | Connects \<Rightarrow> connect_loop script (s1\<lparr>esp_connected := True\<rparr>)
             | StaysDown \<Rightarrow> connect_loop script s1)))"

text \<open>
  With the local file in use the constructor never creates \<open>self._esp\<close>, so reading it
  raises \<open>AttributeError\<close>.
\<close>

definition connect_esp :: "pyportal \<Rightarrow> ((exn + unit) \<times> pyportal) option" where
  "connect_esp s =
     (let s1 = neo_status (0, 0, 100) s
      in if uselocal s1 then Some (Inl AttributeError, s1)
         else connect_loop (esp_script s1) s1)"

section \<open>\<open>PyPortal.fetch\<close>\<close>

text \<open>
  Lines 526 to 540: the object \<open>r\<close>. A \<open>Fake_Requests\<close> object is true, so the network
  branch is skipped after it.
\<close>

definition fetch_response :: "world \<Rightarrow> pyportal \<Rightarrow> ((exn + reply) \<times> pyportal) option" where
  "fetch_response w s =
     (if uselocal s then
        (let s1 = print UsingLocalfile s
         in (case files s1 LOCALFILE of
               None \<Rightarrow> Some (Inl OSError, s1)
             | Some body \<Rightarrow> Some (Inr (Fake_Requests body), s1)))
      else
        (case connect_esp s of
           None \<Rightarrow> None
         | Some (Inl e, s1) \<Rightarrow> Some (Inl e, s1)
         | Some (Inr u, s1) \<Rightarrow>
             (let s2 = emit (HttpGet (url s1) False)
                         (neo_status (100, 100, 0) (print RetrievingData s1))
              in (case http_get w (url s1) False of
                    Inl e \<Rightarrow> Some (Inl e, s2)
                  | Inr resp \<Rightarrow>
                      Some (Inr (Response resp),
                            print ReplyIsOK (neo_status (0, 0, 100) s2))))))"

text \<open>Lines 542 and 543: \<open>r.text\<close> is read, then printed.\<close>

definition fetch_debug :: "reply \<Rightarrow> unit run" where
  "fetch_debug r s =
     (if debug s then
        (case reply_text r of
           Inl e \<Rightarrow> (Inl e, s)
         | Inr body \<Rightarrow> (Inr (), print (Body body) s))
      else (Inr (), s))"

text \<open>
  Lines 545 to 554: \<open>json_out\<close>. The handler reads \<open>r.text\<close> before it prints; when that
  raises, nothing is printed and the new exception leaves the handler.
\<close>

definition fetch_parse :: "world \<Rightarrow> reply \<Rightarrow> pyval run" where
  "fetch_parse w r s =
     (if truthy (image_json_path s) \<or> truthy (json_path s) then
        (case reply_json w r of
           Inr json_out \<Rightarrow> (Inr json_out, s)
         | Inl e \<Rightarrow>
             if is_value_error e then
               (case reply_text r of
                  Inl e' \<Rightarrow> (Inl e', s)
                | Inr body \<Rightarrow> (Inl e, print (CouldntParseJson body) s))
             else if e = MemoryError then (Inl ReloadException, emit SupervisorReload s)
             else (Inl e, s))
      else (Inr PNone, s))"

text \<open>
  Lines 560 to 567: \<open>values\<close>, a list or the body text. \<open>r.text\<close> is read for every
  pattern.
\<close>

fun traverse_all :: "pyval \<Rightarrow> pyval list \<Rightarrow> exn + pyval list" where
  "traverse_all json_out [] = Inr []"
| "traverse_all json_out (path # paths) =
     (case json_traverse json_out path of
        Inl e \<Rightarrow> Inl e
      | Inr v \<Rightarrow> map_sum id (\<lambda>vs. v # vs) (traverse_all json_out paths))"

fun search_all :: "world \<Rightarrow> reply \<Rightarrow> pyval list \<Rightarrow> exn + pyval list" where
  "search_all w r [] = Inr []"
| "search_all w r (regexp # regexps) =
     (case reply_text r of
        Inl e \<Rightarrow> Inl e
      | Inr body \<Rightarrow>
          (case re_search_group w regexp body of
             Inl e \<Rightarrow> Inl e
           | Inr v \<Rightarrow> map_sum id (\<lambda>vs. v # vs) (search_all w r regexps)))"

definition fetch_values :: "world \<Rightarrow> reply \<Rightarrow> pyval \<Rightarrow> pyval run" where
  "fetch_values w r json_out s =
     (if truthy (json_path s) then
        (case py_iter (json_path s) of
           Inl e \<Rightarrow> (Inl e, s)
         | Inr paths \<Rightarrow> (map_sum id PList (traverse_all json_out paths), s))
      else if truthy (regexp_path s) then
        (case py_iter (regexp_path s) of
           Inl e \<Rightarrow> (Inl e, s)
         | Inr regexps \<Rightarrow> (map_sum id PList (search_all w r regexps), s))
      else (map_sum id PStr (reply_text r), s))"

text \<open>
  Lines 569 to 574: \<open>image_url\<close>. The message is built with \<open>+\<close>, which raises
  \<open>TypeError\<close> when the key is not a string.
\<close>

definition fetch_image_url :: "world \<Rightarrow> pyval \<Rightarrow> pyval run" where
  "fetch_image_url w json_out s =
     (if truthy (image_json_path s) then
        (case json_traverse json_out (image_json_path s) of
           Inr image_url \<Rightarrow> (Inr image_url, s)
         | Inl (KeyError (PStr k)) \<Rightarrow>
             and_then (set_background w (default_bg s)) (\<lambda>u s'. (Inr PNone, s'))
               (print (ErrorFindingImage k) s)
         | Inl (KeyError k) \<Rightarrow> (Inl TypeError, s)
         | Inl e \<Rightarrow> (Inl e, s))
      else (Inr PNone, s))"

text \<open>Lines 581 to 595: the \<open>try\<close> block, then the whole statement.\<close>

definition image_try :: "world \<Rightarrow> pyval \<Rightarrow> unit run" where
  "image_try w image_url s =
     (let s1 = print (OriginalURL image_url) s
      in (case image_url of
            PStr u \<Rightarrow>
              and_then (wget w (IMAGE_CONVERTER_SERVICE @ u) ''/cache.bmp'')
                (\<lambda>u. set_background w (Some ''/cache.bmp''))
                (print (ConvertURL (IMAGE_CONVERTER_SERVICE @ u)) s1)
          | _ \<Rightarrow> (Inl TypeError, s1)))"

definition fetch_image :: "world \<Rightarrow> pyval \<Rightarrow> unit run" where
  "fetch_image w image_url s =
     (if truthy image_url then
        (case image_try w image_url s of
           (Inl e, s1) \<Rightarrow>
             if is_value_error e then
               (case first_arg e of
                  Some msg \<Rightarrow>
                    set_background w (default_bg s1) (print (ErrorDisplayingCached msg) s1)
                | None \<Rightarrow> (Inl IndexError, s1))
             else (Inl e, s1)
         | (Inr u, s1) \<Rightarrow> (Inr u, s1))
      else (Inr (), s))"

text \<open>Lines 598 and 599.\<close>

definition fetch_callback :: "world \<Rightarrow> pyval \<Rightarrow> unit run" where
  "fetch_callback w values s =
     (if success_callback s then
        (case callback w values of
           Some e \<Rightarrow> (Inl e, emit (Callback values) s)
         | None \<Rightarrow> (Inr (), emit (Callback values) s))
      else (Inr (), s))"

text \<open>
  Lines 602 to 615: one round of the loop over the text slots, then the loop.
  \<open>wrap_nicely\<close> needs a string: any other value has no \<open>split\<close>.
\<close>

definition render_slot :: "world \<Rightarrow> pyval \<Rightarrow> nat \<Rightarrow> unit run" where
  "render_slot w values i s =
     (case subscript values (PInt (int i)) of
        Inl e \<Rightarrow> (Inl e, s)
      | Inr v \<Rightarrow>
          (case (case py_int w v of
                   Inr n \<Rightarrow> Inr (PStr (format_d w n))
                 | Inl e \<Rightarrow> if e = TypeError \<or> is_value_error e then Inr v else Inl e) of
             Inl e \<Rightarrow> (Inl e, s)
           | Inr string \<Rightarrow>
               (let s1 = (if debug s then print (DrawingText string) s else s)
                in (case py_nth (text_wrap s1) i of
                      Inl e \<Rightarrow> (Inl e, s1)
                    | Inr wrap \<Rightarrow>
                        if wrap \<noteq> 0 then
                          (let s2 = (if debug s1 then print WrappingText s1 else s1)
                           in (case string of
                                 PStr str \<Rightarrow>
                                   set_text w (PStr (str_join [CHR 0x0A] (wrap_nicely str wrap)))
                                     i s2
                               | _ \<Rightarrow> (Inl AttributeError, s2)))
                        else set_text w string i s1))))"

fun render_slots :: "world \<Rightarrow> pyval \<Rightarrow> nat list \<Rightarrow> unit run" where
  "render_slots w values [] s = (Inr (), s)"
| "render_slots w values (i # is) s =
     (case render_slot w values i s of
        (Inl e, s1) \<Rightarrow> (Inl e, s1)
      | (Inr u, s1) \<Rightarrow> render_slots w values is s1)"

definition fetch_render :: "world \<Rightarrow> pyval \<Rightarrow> unit run" where
  "fetch_render w values s =
     (if text_areas s \<noteq> [] then render_slots w values [0..<length (text_areas s)] s
      else (Inr (), s))"

text \<open>Lines 616 to 618: the value returned; \<open>values\<close> is a list or a string.\<close>

definition fetch_result :: "pyval \<Rightarrow> pyval" where
  "fetch_result values =
     (case values of PList [v] \<Rightarrow> v | PStr [c] \<Rightarrow> PStr [c] | _ \<Rightarrow> values)"

text \<open>
  The method from line 542 on, given \<open>r\<close>; then the whole method. \<open>gc.collect()\<close> and the
  clearing of local variables change nothing here.
\<close>

definition fetch_body :: "world \<Rightarrow> reply \<Rightarrow> pyval run" where
  "fetch_body w r =
     and_then (fetch_debug r) (\<lambda>u.
     and_then (fetch_parse w r) (\<lambda>json_out.
     and_then (fetch_values w r json_out) (\<lambda>values.
     and_then (fetch_image_url w json_out) (\<lambda>image_url.
     and_then (fetch_image w image_url) (\<lambda>u.
     and_then (fetch_callback w values) (\<lambda>u.
     and_then (fetch_render w values) (\<lambda>u s. (Inr (fetch_result values), s))))))))"

definition fetch :: "world \<Rightarrow> pyportal \<Rightarrow> ((exn + pyval) \<times> pyportal) option" where
  "fetch w s =
     (case fetch_response w (if debug s then print FreeMem s else s) of
        None \<Rightarrow> None
      | Some (Inl e, s1) \<Rightarrow> Some (Inl e, s1)
      | Some (Inr r, s1) \<Rightarrow> Some (fetch_body w r s1))"

section \<open>Predicates used in the statements\<close>

text \<open>
  Network operations among the events; the state of the background between two calls
  of \<open>set_background\<close>; the shapes of the \<open>json_path\<close> argument; and what is asked of a
  line of \<open>wrap_nicely\<close> for width \<open>m\<close> and words \<open>ws\<close>.
\<close>

definition is_network :: "event \<Rightarrow> bool" where
  "is_network e = (case e of EspConnect \<Rightarrow> True | HttpGet u st \<Rightarrow> True | _ \<Rightarrow> False)"

definition bg_inv :: "pyportal \<Rightarrow> bool" where
  "bg_inv s =
     (length (bg_group s) \<le> 1 \<and> opens_clean {} (trace s) \<and>
      open_after {} (trace s) \<subseteq> set_option (bg_file s))"

definition is_key :: "pyval \<Rightarrow> bool" where
  "is_key v = (case v of PStr k \<Rightarrow> True | PInt i \<Rightarrow> True | _ \<Rightarrow> False)"

definition is_path :: "pyval \<Rightarrow> bool" where
  "is_path v =
     (case v of PList ks \<Rightarrow> list_all is_key ks | PTuple ks \<Rightarrow> list_all is_key ks
      | _ \<Rightarrow> False)"

definition is_path_sequence :: "pyval \<Rightarrow> bool" where
  "is_path_sequence v =
     (case v of PList ps \<Rightarrow> list_all is_path ps | PTuple ps \<Rightarrow> list_all is_path ps
      | _ \<Rightarrow> False)"

definition line_ok :: "int \<Rightarrow> string list \<Rightarrow> string \<Rightarrow> bool" where
  "line_ok m ws l = (int (length l) \<le> m \<or> (l \<in> set ws \<and> m < int (length l)))"

text \<open>
  The words on a line, and what a word is: the lines of \<open>wrap_nicely\<close> are compared
  with the input word by word.
\<close>

definition words_of :: "string \<Rightarrow> string list" where
  "words_of line = filter (\<lambda>w. w \<noteq> []) (str_split line)"

definition is_word :: "string \<Rightarrow> bool" where
  "is_word w = (w \<noteq> [] \<and> CHR '' '' \<notin> set w)"

text \<open>
  The network operations a state has seen; a step is quiet when it adds none and keeps
  the image path.
\<close>

definition network_ops :: "pyportal \<Rightarrow> event list" where
  "network_ops s = filter is_network (trace s)"

definition quiet :: "pyportal \<Rightarrow> pyportal \<Rightarrow> bool" where
  "quiet s s' = (network_ops s' = network_ops s \<and> image_json_path s' = image_json_path s)"

text \<open>
  What a method leaves alone when it only prints, signals and talks to the WiFi
  coprocessor; and what that means for the display and the files.
\<close>

definition frame :: "pyportal \<Rightarrow> pyportal \<Rightarrow> bool" where
  "frame s s' = (\<exists>t c k. s' = s\<lparr>trace := t, esp_connected := c, esp_script := k\<rparr>)"


section \<open>Sample collaborators and objects\<close>

text \<open>
  A stand-in for \<open>'{:,d}'.format\<close>, a world whose server answers with a JSON body and
  a four byte bitmap, and objects as the constructor leaves them for some configurations.
\<close>

function dec_digits :: "nat \<Rightarrow> string" where
  "dec_digits n =
     (if n < 10 then [''0123456789'' ! n]
      else dec_digits (n div 10) @ [''0123456789'' ! (n mod 10)])"
  by pat_completeness auto
termination
  by (relation "measure id") auto

function commas :: "string \<Rightarrow> string" where
  "commas ds =
     (if length ds \<le> 3 then ds
      else commas (take (length ds - 3) ds) @ '','' @ drop (length ds - 3) ds)"
  by pat_completeness auto
termination
  by (relation "measure length") auto

definition thousands :: "int \<Rightarrow> string" where
  "thousands i =
     (if i < 0 then ''-'' @ commas (dec_digits (nat (- i))) else commas (dec_digits (nat i)))"

definition image_body :: string where
  \<open>image_body = ''{"image": "http://example.com/pic.jpg"}''\<close>

definition image_doc :: pyval where
  "image_doc = PDict [(''image'', PStr ''http://example.com/pic.jpg'')]"

definition error_body :: string where
  \<open>error_body = ''{"data": {"error": "limit"}}''\<close>

definition error_doc :: pyval where
  "error_doc = PDict [(''data'', PDict [(''error'', PStr ''limit'')])]"

definition bitmap_response :: response where
  "bitmap_response =
     \<lparr>resp_text = Inl UnicodeError,
      resp_json = Inl (ValueError (Some ''syntax error in JSON'')),
      resp_headers = [(''content-length'', ''4'')],
      iter_content = (\<lambda>n. [Inr ''BM00''])\<rparr>"

definition data_response :: response where
  "data_response =
     \<lparr>resp_text = Inr image_body, resp_json = Inr image_doc, resp_headers = [],
      iter_content = (\<lambda>n. [])\<rparr>"

definition demo_world :: world where
  "demo_world =
     \<lparr>json_loads = (\<lambda>t. if t = image_body then Inr image_doc
                          else if t = error_body then Inr error_doc
                          else Inl (ValueError (Some ''syntax error in JSON''))),
      re_search_group = (\<lambda>r t. Inl AttributeError),
      http_get = (\<lambda>u stream. if stream then Inr bitmap_response else Inr data_response),
      py_int = (\<lambda>v. case v of PInt i \<Rightarrow> Inr i
                       | PStr t \<Rightarrow> if t = ''4'' then Inr 4
                                   else Inl (ValueError (Some ''invalid syntax for integer''))
                       | _ \<Rightarrow> Inl TypeError),
      py_str = (\<lambda>v. case v of PStr t \<Rightarrow> t | _ \<Rightarrow> ''None''),
      format_d = thousands,
      on_disk_bitmap = (\<lambda>c. if take 2 c = ''BM'' then None
                              else Some (ValueError (Some ''Invalid BMP file''))),
      fs_writable = True,
      callback = (\<lambda>v. None)\<rparr>"

definition fresh_portal :: pyportal where
  "fresh_portal =
     \<lparr>debug = False, url = ''http://example.com/data'', json_path = PNone,
      regexp_path = PNone, success_callback = False, neopix = False, uselocal = False,
      splash = [Obj 0 BgGroup], bg_group = [], bg_file = None, default_bg = None,
      text_font = False, text_areas = [], text_color = [], text_position = [],
      text_wrap = [], text_maxlen = [], image_json_path = PNone,
      trace = [], files = Map.empty, next_id = 1, next_handle = 0,
      esp_connected = True, esp_script = []\<rparr>"

definition local_image_portal :: pyportal where
  "local_image_portal =
     fresh_portal\<lparr>uselocal := True, esp_connected := False,
       image_json_path := PList [PStr ''image''],
       files := [LOCALFILE \<mapsto> image_body]\<rparr>"

definition network_image_portal :: pyportal where
  "network_image_portal = fresh_portal\<lparr>image_json_path := PList [PStr ''image'']\<rparr>"

definition local_error_portal :: pyportal where
  "local_error_portal =
     fresh_portal\<lparr>uselocal := True, esp_connected := False,
       image_json_path := PList [PStr ''data'', PInt 0, PStr ''url''],
       files := [LOCALFILE \<mapsto> error_body]\<rparr>"

definition three_slots :: pyportal where
  "three_slots =
     fresh_portal\<lparr>text_font := True, text_areas := [None, None, None],
       text_color := [1, 2, 3],
       text_position := [Some (0, 0), Some (0, 20), Some (0, 40)],
       text_wrap := [0, 0, 0], text_maxlen := [0, 0, 0]\<rparr>"

text \<open>The object of \<open>three_slots\<close> after each slot was drawn once, in order.\<close>

definition three_texts :: pyportal where
  "three_texts =
     snd (set_text demo_world (PStr ''c'') 2
       (snd (set_text demo_world (PStr ''b'') 1
          (snd (set_text demo_world (PStr ''a'') 0 three_slots)))))"




definition jpeg_world :: world where
  "jpeg_world =
     demo_world\<lparr>http_get := (\<lambda>u stream.
       if stream then Inr (bitmap_response\<lparr>iter_content := (\<lambda>n. [Inr ''JPEG''])\<rparr>)
       else Inr data_response)\<rparr>"

definition default_bg_portal :: pyportal where
  "default_bg_portal =
     fresh_portal\<lparr>default_bg := Some ''default.bmp'',
       files := [''default.bmp'' \<mapsto> ''BM01'', ''other.bmp'' \<mapsto> ''BM02'']\<rparr>"

text \<open>The object of \<open>default_bg_portal\<close> once its default background is shown.\<close>

definition shown_default :: pyportal where
  "shown_default = snd (set_background demo_world (Some ''default.bmp'') default_bg_portal)"

text \<open>
  A world whose files cannot be written; an object whose default background exists,
  for the world that serves a picture that is no bitmap; and the picture's address.
\<close>

definition readonly_world :: world where
  "readonly_world = demo_world\<lparr>fs_writable := False\<rparr>"

definition jpeg_portal :: pyportal where
  "jpeg_portal =
     network_image_portal\<lparr>default_bg := Some ''default.bmp'',
       files := [''default.bmp'' \<mapsto> ''BM01'']\<rparr>"

definition picture_url :: pyval where
  "picture_url = PStr ''http://example.com/pic.jpg''"




section \<open>Properties\<close>

subsection \<open>\<open>wrap_nicely\<close>\<close>

lemma split_from_no_space:
  "w \<in> set (split_from cur s) \<Longrightarrow> CHR '' '' \<notin> set cur \<Longrightarrow> CHR '' '' \<notin> set w"
  by (induction cur s rule: split_from.induct) (auto split: if_splits)

lemma str_split_no_space: "w \<in> set (str_split s) \<Longrightarrow> CHR '' '' \<notin> set w"
  unfolding str_split_def using split_from_no_space by fastforce

lemma wrap_loop_lines:
  "wrap_loop m ws ls l = (ls', l') \<Longrightarrow> set ws \<subseteq> set W \<Longrightarrow>
   \<forall>x \<in> set ls. line_ok m W x \<Longrightarrow> line_ok m W l \<Longrightarrow>
   (\<forall>x \<in> set ls'. line_ok m W x) \<and> line_ok m W l'"
proof (induction m ws ls l rule: wrap_loop.induct)
  case (1 m ls l)
  then show ?case by simp
next
  case (2 m w ws ls l)
  show ?case
  proof (cases "int (length (l @ '' '' @ w)) \<le> m")
    case True
    then have "line_ok m W (l @ '' '' @ w)" by (simp add: line_ok_def)
    with 2 True show ?thesis by simp
  next
    case False
    have "w \<in> set W" using 2(4) by simp
    then have "line_ok m W w" by (auto simp: line_ok_def)
    with 2 False show ?thesis by simp
  qed
qed

text \<open>
  Claim C6. For every string and every width \<open>m\<close> (a width is not negative), each line
  that \<open>wrap_nicely\<close> returns has at most \<open>m\<close> characters, unless it is one word of the
  input, without a space, that is itself longer than \<open>m\<close>.
\<close>

theorem wrap_nicely_line_width:
  assumes "0 \<le> m" and "l \<in> set (wrap_nicely s m)"
  shows "int (length l) \<le> m \<or>
         (l \<in> set (str_split s) \<and> CHR '' '' \<notin> set l \<and> m < int (length l))"
proof -
  obtain ls' l' where w: "wrap_loop m (str_split s) [] [] = (ls', l')" by force
  have "line_ok m (str_split s) []" using assms(1) by (simp add: line_ok_def)
  with wrap_loop_lines[OF w] have "(\<forall>x \<in> set ls'. line_ok m (str_split s) x) \<and> line_ok m (str_split s) l'"
    by simp
  moreover have "l \<in> set ls' \<or> l = l'"
    using assms(2) w by (auto simp: wrap_nicely_def split: if_splits)
  ultimately have "line_ok m (str_split s) l" by auto
  then show ?thesis using str_split_no_space by (auto simp: line_ok_def)
qed

lemma wrap_long_word: "wrap_nicely ''abcdef gh'' 3 = ['''', ''abcdef'', ''gh'']"
  by (simp add: wrap_nicely_def str_split_def)

theorem wrap_nicely_line_width_witness:
  "(0::int) \<le> 3 \<and> ''abcdef'' \<in> set (wrap_nicely ''abcdef gh'' 3) \<and>
   ''abcdef'' \<in> set (str_split ''abcdef gh'') \<and> (3::int) < int (length ''abcdef'')"
proof -
  have a: "(0::int) \<le> 3" by simp
  have b: "''abcdef'' \<in> set (wrap_nicely ''abcdef gh'' 3)" by (simp add: wrap_long_word)
  show ?thesis using a b wrap_nicely_line_width [OF a b] by simp
qed

text \<open>
  Claim C5. The words \<open>ab\<close> and \<open>cd\<close> joined with a space and wrapped at width 3, which
  is at least the length of each word: the first line returned is \<open>ab\<close> with a space in
  front, so a line does carry a leading space before its first word, and the lines
  joined again have a space that the input does not.
\<close>

theorem wrap_nicely_first_line_space:
  "wrap_nicely (str_join '' '' [''ab'', ''cd'']) 3 = ['' ab'', ''cd'']"
  by (simp add: wrap_nicely_def str_split_def)

text \<open>
  What the code does keep: the words of the lines, in order, are the words of the input,
  for any width.
\<close>

lemma split_from_word: "CHR '' '' \<notin> set w \<Longrightarrow> split_from cur w = [cur @ w]"
  by (induction w arbitrary: cur) auto

lemma split_from_space:
  "split_from cur (a @ CHR '' '' # b) = split_from cur a @ split_from [] b"
  by (induction a arbitrary: cur) auto

lemma str_split_join:
  "W \<noteq> [] \<Longrightarrow> \<forall>w \<in> set W. CHR '' '' \<notin> set w \<Longrightarrow> str_split (str_join '' '' W) = W"
proof (induction "'' ''" W rule: str_join.induct)
  case 1
  then show ?case by simp
next
  case (2 w)
  then show ?case by (simp add: str_split_def split_from_word)
next
  case (3 w v ws)
  then have "str_split (str_join '' '' (v # ws)) = v # ws" by simp
  moreover have "split_from [] (w @ CHR '' '' # str_join '' '' (v # ws)) =
      split_from [] w @ split_from [] (str_join '' '' (v # ws))"
    by (rule split_from_space)
  ultimately show ?case using 3(3) by (simp add: str_split_def split_from_word)
qed

lemma words_of_empty: "words_of [] = []"
  by (simp add: words_of_def str_split_def)

lemma words_of_word: "is_word w \<Longrightarrow> words_of w = [w]"
  by (simp add: words_of_def str_split_def split_from_word is_word_def)

lemma words_of_add: "is_word w \<Longrightarrow> words_of (l @ CHR '' '' # w) = words_of l @ [w]"
  using split_from_space [of "[]" l w]
  by (simp add: words_of_def str_split_def split_from_word is_word_def)

lemma wrap_loop_words:
  "wrap_loop m ws ls l = (ls', l') \<Longrightarrow> \<forall>w \<in> set ws. is_word w \<Longrightarrow>
   concat (map words_of ls') @ words_of l' = concat (map words_of ls) @ words_of l @ ws"
proof (induction m ws ls l rule: wrap_loop.induct)
  case (1 m ls l)
  then show ?case by simp
next
  case (2 m w ws ls l)
  then have w: "is_word w" by simp
  show ?case
  proof (cases "int (length (l @ '' '' @ w)) \<le> m")
    case True
    with 2 show ?thesis by (simp add: words_of_add [OF w])
  next
    case False
    with 2 show ?thesis by (simp add: words_of_word [OF w])
  qed
qed

lemma wrap_nicely_words:
  assumes "W \<noteq> []" and "\<forall>w \<in> set W. is_word w"
  shows "concat (map words_of (wrap_nicely (str_join '' '' W) m)) = W"
proof -
  have split: "str_split (str_join '' '' W) = W"
    using assms by (simp add: str_split_join is_word_def)
  obtain ls' l' where run: "wrap_loop m W [] [] = (ls', l')" by force
  have "concat (map words_of ls') @ words_of l' = W"
    using wrap_loop_words [OF run] assms(2) by (simp add: words_of_empty)
  moreover have "words_of l' = []" if "l' = []"
    using that by (simp add: words_of_empty)
  ultimately show ?thesis
    using run split by (auto simp: wrap_nicely_def)
qed

subsection \<open>\<open>set_text\<close>\<close>

text \<open>
  The loop takes off the text area of the slot and everything above it, and lists what
  was above from the top down.
\<close>

lemma pop_until_found:
  assumes "same_object t' t" and "\<forall>a \<in> set upper. \<not> same_object a t"
  shows "pop_until t (lower @ [t'] @ upper) items = (lower, items @ rev upper)"
  using assms(2)
proof (induction upper arbitrary: items rule: rev_induct)
  case Nil
  show ?case using assms(1) by (subst pop_until.simps) simp
next
  case (snoc a upper)
  have na: "\<not> same_object a t" using snoc.prems by simp
  have "pop_until t (lower @ [t'] @ upper @ [a]) items =
        pop_until t (lower @ [t'] @ upper) (items @ [a])"
    using na by (subst pop_until.simps) (simp add: butlast_append)
  also have "\<dots> = (lower, (items @ [a]) @ rev upper)"
    using snoc by simp
  finally show ?case by simp
qed

text \<open>
  Redrawing a slot that is on the display: what is under it stays, the new text area
  takes its place, and what was above it comes back in reverse order.
\<close>

lemma set_text_replace_splash:
  assumes "text_font s"
    and "index < length (text_maxlen s)" and "index < length (text_areas s)"
    and "index < length (text_color s)" and "index < length (text_position s)"
    and "text_areas s ! index = Some t" and "text_position s ! index = Some pos"
    and "splash s = lower @ [t'] @ upper" and "same_object t' t"
    and "\<forall>a \<in> set upper. \<not> same_object a t"
  shows "\<exists>new. splash (snd (set_text w val index s)) = lower @ [new] @ rev upper \<and>
               ident new = next_id s"
proof -
  have popped: "pop_until t (splash s) [] = (lower, rev upper)"
    using pop_until_found [OF assms(9,10), of lower "[]"] assms(8) by simp
  show ?thesis
    using assms(1-7) popped
    by (simp add: set_text_def place_text_area_def py_nth_def Let_def)
qed

lemma three_texts_splash: "map ident (splash three_texts) = [0, 1, 2, 3]"
  by (simp add: three_texts_def three_slots_def fresh_portal_def demo_world_def
      set_text_def place_text_area_def py_nth_def Let_def print_def emit_def)

text \<open>
  Claim C7. Three slots drawn in order lie on the display as objects 1, 2, 3 above the
  background group 0. Setting the text of slot 0 again puts the new text area 4 in its
  place, but the two elements above it change places: 3 is now under 2.
\<close>

theorem set_text_reverses_later_elements:
  "map ident (splash three_texts) = [0, 1, 2, 3] \<and>
   map ident (splash (snd (set_text demo_world (PStr ''x'') 0 three_texts))) = [0, 4, 3, 2]"
  by (simp add: three_texts_def three_slots_def fresh_portal_def demo_world_def
      set_text_def place_text_area_def py_nth_def Let_def print_def emit_def
      pop_until.simps same_object_def)

subsection \<open>\<open>set_background\<close>\<close>

lemma open_after_append: "open_after H (es @ es') = open_after (open_after H es) es'"
  by (induction H es rule: open_after.induct) auto

lemma opens_clean_append:
  "opens_clean H (es @ es') = (opens_clean H es \<and> opens_clean (open_after H es) es')"
  by (induction H es rule: opens_clean.induct) auto

lemma set_background_inv: "bg_inv s \<Longrightarrow> bg_inv (snd (set_background w f s))"
  by (auto simp: bg_inv_def set_background_def Let_def print_def emit_def
      open_after_append opens_clean_append split: option.splits)

lemma set_backgrounds_inv: "bg_inv s \<Longrightarrow> bg_inv (set_backgrounds w fs s)"
  by (induction fs arbitrary: s) (auto simp: set_background_inv)

text \<open>
  Claim C8. From a state with at most one background sprite, in which every opening of
  a background file found the earlier handle closed and only the current file may be
  open, any sequence of \<open>set_background\<close> calls (failing ones included) leaves at most
  one sprite attached, and every opening of a file in it happens with no background
  file handle open.
\<close>

theorem set_backgrounds_one_sprite_one_file:
  assumes "length (bg_group s) \<le> 1" and "opens_clean {} (trace s)"
    and "open_after {} (trace s) \<subseteq> set_option (bg_file s)"
  shows "length (bg_group (set_backgrounds w fs s)) \<le> 1 \<and>
         opens_clean {} (trace (set_backgrounds w fs s)) \<and>
         open_after {} (trace (set_backgrounds w fs s))
           \<subseteq> set_option (bg_file (set_backgrounds w fs s))"
  using set_backgrounds_inv [of s w fs] assms by (simp add: bg_inv_def)

theorem set_backgrounds_one_sprite_one_file_witness:
  "length (bg_group default_bg_portal) \<le> 1 \<and> opens_clean {} (trace default_bg_portal) \<and>
   open_after {} (trace default_bg_portal) \<subseteq> set_option (bg_file default_bg_portal) \<and>
   length (bg_group (set_backgrounds demo_world [Some ''default.bmp'', Some ''other.bmp'']
     default_bg_portal)) \<le> 1 \<and>
   opens_clean {} (trace (set_backgrounds demo_world [Some ''default.bmp'', Some ''other.bmp'']
     default_bg_portal)) \<and>
   filter (\<lambda>e. \<not> is_network e) (trace (set_backgrounds demo_world
       [Some ''default.bmp'', Some ''other.bmp''] default_bg_portal)) =
     [Print (SetBackgroundTo (Some ''default.bmp'')), BgFileOpen 0 ''default.bmp'',
      Print (SetBackgroundTo (Some ''other.bmp'')), BgFileClose 0, BgFileOpen 1 ''other.bmp'']"
proof -
  have a: "length (bg_group default_bg_portal) \<le> 1"
    by (simp add: default_bg_portal_def fresh_portal_def)
  have b: "opens_clean {} (trace default_bg_portal)"
    by (simp add: default_bg_portal_def fresh_portal_def)
  have c: "open_after {} (trace default_bg_portal) \<subseteq> set_option (bg_file default_bg_portal)"
    by (simp add: default_bg_portal_def fresh_portal_def)
  have d: "trace (set_backgrounds demo_world [Some ''default.bmp'', Some ''other.bmp'']
      default_bg_portal) =
     [Print (SetBackgroundTo (Some ''default.bmp'')), BgFileOpen 0 ''default.bmp'',
      Print (SetBackgroundTo (Some ''other.bmp'')), BgFileClose 0, BgFileOpen 1 ''other.bmp'']"
    by (simp add: default_bg_portal_def fresh_portal_def demo_world_def set_background_def
        Let_def print_def emit_def)
  show ?thesis
    using a b c d
      set_backgrounds_one_sprite_one_file [OF a b c, of demo_world
        "[Some ''default.bmp'', Some ''other.bmp'']"]
    by (simp add: is_network_def)
qed

text \<open>
  Claim C9. \<open>set_background\<close> with \<open>None\<close> or the empty string returns normally after
  printing and popping the background group: the attached sprite, if there is one, is
  gone, no file is opened, and the background file and the handles open are as before.
\<close>

theorem set_background_falsy_keeps_file:
  assumes "filename = None \<or> filename = Some []"
  shows "set_background w filename s =
           (Inr (), s\<lparr>trace := trace s @ [Print (SetBackgroundTo filename)],
                      bg_group := butlast (bg_group s)\<rparr>) \<and>
         bg_file (snd (set_background w filename s)) = bg_file s \<and>
         open_after H (trace (snd (set_background w filename s))) = open_after H (trace s) \<and>
         (length (bg_group s) \<le> 1 \<longrightarrow> bg_group (snd (set_background w filename s)) = [])"
proof -
  have one: "butlast xs = []" if "length xs \<le> 1" for xs :: "drawable list"
    using that by (cases xs) auto
  show ?thesis
    using assms
    by (auto simp: set_background_def Let_def print_def emit_def open_after_append one)
qed

lemma shown_default_state:
  "map ident (bg_group shown_default) = [1] \<and> bg_file shown_default = Some 0 \<and>
   open_after {} (trace shown_default) = {0}"
  by (simp add: shown_default_def default_bg_portal_def fresh_portal_def demo_world_def
      set_background_def Let_def print_def emit_def)

theorem set_background_falsy_keeps_file_witness:
  "length (bg_group shown_default) \<le> 1 \<and>
   fst (set_background demo_world None shown_default) = Inr () \<and>
   bg_group (snd (set_background demo_world None shown_default)) = [] \<and>
   bg_file (snd (set_background demo_world None shown_default)) = Some 0 \<and>
   open_after {} (trace (snd (set_background demo_world None shown_default))) = {0} \<and>
   bg_group (snd (set_background demo_world (Some []) shown_default)) = []"
proof -
  have len: "length (bg_group shown_default) \<le> 1"
    using shown_default_state by (metis length_map le_refl list.size(3,4) One_nat_def add_0)
  have none: "(None :: string option) = None \<or> (None :: string option) = Some []"
    by simp
  have empty: "Some [] = (None :: string option) \<or> Some [] = Some ([] :: string)"
    by simp
  note N = set_background_falsy_keeps_file [OF none, of demo_world shown_default "{}"]
  note E = set_background_falsy_keeps_file [OF empty, of demo_world shown_default "{}"]
  have "fst (set_background demo_world None shown_default) = Inr ()"
    by (simp add: N [THEN conjunct1])
  moreover have "bg_group (snd (set_background demo_world None shown_default)) = []"
    using N len by blast
  moreover have "bg_file (snd (set_background demo_world None shown_default)) = Some 0"
    using N shown_default_state by metis
  moreover have "open_after {} (trace (snd (set_background demo_world None shown_default))) = {0}"
    using N shown_default_state by metis
  moreover have "bg_group (snd (set_background demo_world (Some []) shown_default)) = []"
    using E len by blast
  ultimately show ?thesis using len by blast
qed

subsection \<open>The stored \<open>json_path\<close>\<close>

text \<open>A sequence of paths is what the loop of \<open>fetch\<close> can visit.\<close>

lemma is_path_sequence_iter:
  "is_path_sequence v \<Longrightarrow> \<exists>ps. py_iter v = Inr ps \<and> list_all is_path ps"
  by (cases v) (auto simp: is_path_sequence_def)

text \<open>
  Claim C10. The constructor stores \<open>None\<close> for an empty \<open>json_path\<close> argument; an
  argument whose first element is not a list or tuple is stored as the one element of
  a tuple, and one whose first element is a list or tuple is stored as it is. So for an
  argument that is \<open>None\<close>, a path or a sequence of paths, what is stored is \<open>None\<close> or
  a sequence of paths for \<open>fetch\<close> to loop over, and not empty.
\<close>

theorem init_json_path_stores_paths:
  "(\<not> truthy jp \<longrightarrow> init_json_path jp = Inr PNone) \<and>
   (truthy jp \<longrightarrow> subscript jp (PInt 0) = Inr first \<longrightarrow> \<not> is_list_or_tuple first \<longrightarrow>
      init_json_path jp = Inr (PTuple [jp])) \<and>
   (truthy jp \<longrightarrow> subscript jp (PInt 0) = Inr first \<longrightarrow> is_list_or_tuple first \<longrightarrow>
      init_json_path jp = Inr jp) \<and>
   (jp = PNone \<or> is_path jp \<or> is_path_sequence jp \<longrightarrow>
      (\<exists>v. init_json_path jp = Inr v \<and>
           (v = PNone \<or> (\<exists>ps. py_iter v = Inr ps \<and> ps \<noteq> [] \<and> list_all is_path ps))))"
proof -
  have last_part: "\<exists>v. init_json_path jp = Inr v \<and>
           (v = PNone \<or> (\<exists>ps. py_iter v = Inr ps \<and> ps \<noteq> [] \<and> list_all is_path ps))"
    if shaped: "jp = PNone \<or> is_path jp \<or> is_path_sequence jp"
  proof (cases "truthy jp")
    case False
    then show ?thesis by (simp add: init_json_path_def)
  next
    case True
    then obtain x xs where shape: "jp = PList (x # xs) \<or> jp = PTuple (x # xs)"
      using shaped by (cases jp) (auto simp: is_path_def is_path_sequence_def neq_Nil_conv)
    then have first: "subscript jp (PInt 0) = Inr x"
      by (auto simp: py_index_def)
    show ?thesis
    proof (cases "is_list_or_tuple x")
      case True
      then have "\<not> is_key x" by (cases x) (auto simp: is_key_def is_list_or_tuple_def)
      then have "is_path_sequence jp"
        using shaped shape by (auto simp: is_path_def is_path_sequence_def)
      then show ?thesis
        using shape first True \<open>truthy jp\<close>
        by (auto simp: init_json_path_def is_path_sequence_def)
    next
      case False
      then have "\<not> is_path x" by (cases x) (auto simp: is_path_def is_list_or_tuple_def)
      then have "is_path jp"
        using shaped shape by (auto simp: is_path_sequence_def)
      then show ?thesis
        using first False \<open>truthy jp\<close> by (simp add: init_json_path_def)
    qed
  qed
  show ?thesis
    using last_part by (auto simp: init_json_path_def)
qed

theorem init_json_path_stores_paths_witness:
  "truthy (PList [PStr ''main'', PStr ''temp'']) \<and>
   subscript (PList [PStr ''main'', PStr ''temp'']) (PInt 0) = Inr (PStr ''main'') \<and>
   \<not> is_list_or_tuple (PStr ''main'') \<and>
   is_path (PList [PStr ''main'', PStr ''temp'']) \<and>
   init_json_path (PList [PStr ''main'', PStr ''temp'']) =
     Inr (PTuple [PList [PStr ''main'', PStr ''temp'']]) \<and>
   \<not> truthy (PList []) \<and> init_json_path (PList []) = Inr PNone \<and>
   truthy (PList [PList [PStr ''a''], PList [PStr ''b'', PInt 0]]) \<and>
   is_list_or_tuple (PList [PStr ''a'']) \<and>
   init_json_path (PList [PList [PStr ''a''], PList [PStr ''b'', PInt 0]]) =
     Inr (PList [PList [PStr ''a''], PList [PStr ''b'', PInt 0]])"
  using init_json_path_stores_paths [of "PList [PStr ''main'', PStr ''temp'']" "PStr ''main''"]
    init_json_path_stores_paths [of "PList []" PNone]
    init_json_path_stores_paths [of "PList [PList [PStr ''a''], PList [PStr ''b'', PInt 0]]"
      "PList [PStr ''a'']"]
  by (simp add: py_index_def is_list_or_tuple_def is_path_def is_key_def)

subsection \<open>\<open>fetch\<close>\<close>

text \<open>
  Printing, the status light and the connection loop change only the trace and the
  state of the WiFi coprocessor; so does getting the response.
\<close>

lemma frame_refl: "frame s s"
  unfolding frame_def
  by (rule exI [of _ "trace s"], rule exI [of _ "esp_connected s"],
      rule exI [of _ "esp_script s"]) simp

lemma frame_trans: "frame s s1 \<Longrightarrow> frame s1 s2 \<Longrightarrow> frame s s2"
  unfolding frame_def by (elim exE) (simp, blast)

lemma frame_trace: "frame s (s\<lparr>trace := t\<rparr>)"
  unfolding frame_def
  by (rule exI [of _ t], rule exI [of _ "esp_connected s"], rule exI [of _ "esp_script s"])
     simp

lemma frame_connected: "frame s (s\<lparr>esp_connected := c\<rparr>)"
  unfolding frame_def
  by (rule exI [of _ "trace s"], rule exI [of _ c], rule exI [of _ "esp_script s"]) simp

lemma frame_script: "frame s (s\<lparr>esp_script := k\<rparr>)"
  unfolding frame_def
  by (rule exI [of _ "trace s"], rule exI [of _ "esp_connected s"], rule exI [of _ k]) simp

lemma frame_emit: "frame s (emit e s)"
  by (simp add: emit_def frame_trace)

lemma frame_print: "frame s (print m s)"
  by (simp add: print_def frame_emit)

lemma frame_neo_status: "frame s (neo_status v s)"
  by (simp add: neo_status_def frame_emit frame_refl)

lemma connect_loop_frame: "connect_loop script s = Some (r, s') \<Longrightarrow> frame s s'"
proof (induction script s rule: connect_loop.induct)
  case (1 s)
  then show ?case by (auto split: if_splits intro: frame_script)
next
  case (2 c script s)
  show ?case
  proof (cases "esp_connected s")
    case True
    with 2(3) show ?thesis by (auto intro: frame_script)
  next
    case False
    define s1 where "s1 = emit EspConnect
                    (neo_status (100, 0, 0) (if debug s then print ConnectingToAP s else s))"
    have s1: "frame s s1"
      unfolding s1_def
      by (intro frame_trans [OF _ frame_emit] frame_trans [OF _ frame_neo_status])
         (simp add: frame_print frame_refl)
    show ?thesis
    proof (cases c)
      case Connects
      with 2(3) False have run: "connect_loop script (s1\<lparr>esp_connected := True\<rparr>) = Some (r, s')"
        by (simp add: s1_def Let_def)
      have "frame (s1\<lparr>esp_connected := True\<rparr>) s'"
        using 2(1)[OF False _ Connects] run by (simp add: s1_def)
      then show ?thesis using s1 frame_connected frame_trans by blast
    next
      case StaysDown
      with 2(3) False have run: "connect_loop script s1 = Some (r, s')"
        by (simp add: s1_def Let_def)
      have "frame s1 s'"
        using 2(2)[OF False _ StaysDown] run by (simp add: s1_def)
      then show ?thesis using s1 frame_trans by blast
    next
      case (ConnRaises e)
      with 2(3) False have "s' = s1\<lparr>esp_script := script\<rparr>"
        by (auto simp: s1_def Let_def)
      then show ?thesis using s1 frame_script frame_trans by blast
    qed
  qed
qed

lemma connect_esp_frame: "connect_esp s = Some (r, s') \<Longrightarrow> frame s s'"
  unfolding connect_esp_def Let_def
  by (auto split: if_splits dest!: connect_loop_frame
      intro: frame_trans [OF frame_neo_status] frame_neo_status)




text \<open>Running one step after another.\<close>

lemma and_then_Inr: "m s = (Inr a, s1) \<Longrightarrow> and_then m f s = f a s1"
  by (simp add: and_then_def)

lemma and_then_Inl: "m s = (Inl e, s1) \<Longrightarrow> and_then m f s = (Inl e, s1)"
  by (simp add: and_then_def)


text \<open>
  What the steps from line 542 on do when \<open>json()\<close> raises a \<open>ValueError\<close>.
\<close>

lemma fetch_body_unparsable:
  assumes "truthy (image_json_path s1) \<or> truthy (json_path s1)"
    and "reply_json w r = Inl err" and "is_value_error err"
  shows "(reply_text r = Inr body \<longrightarrow>
            fetch_body w r s1 =
              (Inl err,
               s1\<lparr>trace := trace s1 @ (if debug s1 then [Print (Body body)] else []) @
                               [Print (CouldntParseJson body)]\<rparr>)) \<and>
         (reply_text r = Inl e \<longrightarrow> fetch_body w r s1 = (Inl e, s1))"
proof -
  have readable: "fetch_body w r s1 =
      (Inl err,
       s1\<lparr>trace := trace s1 @ (if debug s1 then [Print (Body body)] else []) @
                       [Print (CouldntParseJson body)]\<rparr>)"
    if rt: "reply_text r = Inr body"
  proof -
    let ?s2 = "if debug s1 then print (Body body) s1 else s1"
    have dbg: "fetch_debug r s1 = (Inr (), ?s2)"
      using rt by (simp add: fetch_debug_def)
    have "truthy (image_json_path ?s2) \<or> truthy (json_path ?s2)"
      using assms(1) by (simp add: print_def emit_def)
    then have "fetch_parse w r ?s2 = (Inl err, print (CouldntParseJson body) ?s2)"
      using assms(2,3) rt by (simp add: fetch_parse_def)
    then have "fetch_body w r s1 = (Inl err, print (CouldntParseJson body) ?s2)"
      unfolding fetch_body_def
      by (simp only: and_then_Inr [of "fetch_debug r", OF dbg] and_then_Inl)
    then show ?thesis
      by (simp add: print_def emit_def)
  qed
  have unreadable: "fetch_body w r s1 = (Inl e, s1)" if rt: "reply_text r = Inl e"
  proof (cases "debug s1")
    case True
    then have "fetch_debug r s1 = (Inl e, s1)"
      using rt by (simp add: fetch_debug_def)
    then show ?thesis
      unfolding fetch_body_def by (simp only: and_then_Inl)
  next
    case False
    then have dbg: "fetch_debug r s1 = (Inr (), s1)"
      by (simp add: fetch_debug_def)
    have "fetch_parse w r s1 = (Inl e, s1)"
      using assms rt by (simp add: fetch_parse_def)
    then show ?thesis
      unfolding fetch_body_def
      by (simp only: and_then_Inr [of "fetch_debug r", OF dbg] and_then_Inl)
  qed
  show ?thesis
    using readable unreadable by simp
qed





text \<open>
  With the local file, and over the network, \<open>fetch\<close> runs the same steps; the states
  differ in the events of getting the response.
\<close>

lemma fetch_local_body:
  assumes "uselocal s" and "files s LOCALFILE = Some body"
  shows "fetch w s =
     Some (fetch_body w (Fake_Requests body)
       (s\<lparr>trace := trace s @
          (if debug s then [Print FreeMem, Print UsingLocalfile]
           else [Print UsingLocalfile])\<rparr>))"
  using assms
  by (simp add: fetch_def fetch_response_def Let_def print_def emit_def)

lemma fetch_network_body:
  assumes "\<not> uselocal s"
    and "connect_esp (if debug s then print FreeMem s else s) = Some (Inr (), s1)"
    and "http_get w (url s) False = Inr resp"
  shows "fetch w s =
     Some (fetch_body w (Response resp)
       (s1\<lparr>trace := trace s1 @
          [Print RetrievingData] @ (if neopix s then [NeoFill (100, 100, 0)] else []) @
          [HttpGet (url s) False] @ (if neopix s then [NeoFill (0, 0, 100)] else []) @
          [Print ReplyIsOK]\<rparr>))"
proof -
  let ?s0 = "if debug s then print FreeMem s else s"
  have "frame ?s0 s1" using connect_esp_frame [OF assms(2)] .
  moreover have "frame s ?s0" by (simp add: frame_print frame_refl)
  ultimately have "frame s s1" using frame_trans by blast
  then have same: "url s1 = url s" "neopix s1 = neopix s" "debug s1 = debug s"
    unfolding frame_def by auto
  show ?thesis
    using assms same
    by (simp add: fetch_def fetch_response_def Let_def print_def emit_def neo_status_def)
qed

text \<open>
  The steps use \<open>r\<close> only through \<open>r.text\<close> and \<open>r.json()\<close>: a response of the library with
  the text and the parse of the local file is treated as the local file is.
\<close>

lemma search_all_same:
  "reply_text r = reply_text r' \<Longrightarrow> search_all w r regexps = search_all w r' regexps"
  by (induction regexps) (simp_all cong: sum.case_cong)

lemma fetch_body_same:
  assumes "reply_text r = reply_text r'" and "reply_json w r = reply_json w r'"
  shows "fetch_body w r = fetch_body w r'"
proof -
  have "fetch_debug r = fetch_debug r'"
    using assms(1) by (simp add: fetch_debug_def fun_eq_iff cong: sum.case_cong if_cong)
  moreover have "fetch_parse w r = fetch_parse w r'"
    using assms by (simp add: fetch_parse_def fun_eq_iff cong: sum.case_cong if_cong)
  moreover have "fetch_values w r = fetch_values w r'"
    using assms(1) search_all_same [OF assms(1)]
    by (simp add: fetch_values_def fun_eq_iff cong: sum.case_cong if_cong)
  ultimately show ?thesis by (simp add: fetch_body_def)
qed

lemma fetch_body_response_as_local:
  assumes "resp_text resp = Inr body" and "resp_json resp = json_loads w body"
  shows "fetch_body w (Response resp) = fetch_body w (Fake_Requests body)"
  using assms by (intro fetch_body_same) (simp_all add: reply_text_def reply_json_def)

text \<open>
  With the local file \<open>r.text\<close> is the text read from it, so there the body is always
  printed and the parse error raised.
\<close>

lemma fetch_unparsable_local_file:
  assumes "uselocal s" and "files s LOCALFILE = Some body"
    and "truthy (image_json_path s) \<or> truthy (json_path s)"
    and "json_loads w body = Inl err" and "is_value_error err"
  shows "fetch w s =
     Some (Inl err,
           s\<lparr>trace := trace s @
             (if debug s then [Print FreeMem, Print UsingLocalfile, Print (Body body)]
              else [Print UsingLocalfile]) @ [Print (CouldntParseJson body)]\<rparr>)"
proof -
  let ?s1 = "s\<lparr>trace := trace s @
          (if debug s then [Print FreeMem, Print UsingLocalfile]
           else [Print UsingLocalfile])\<rparr>"
  have paths: "truthy (image_json_path ?s1) \<or> truthy (json_path ?s1)"
    using assms(3) by simp
  have parse: "reply_json w (Fake_Requests body) = Inl err"
    using assms(4) by (simp add: reply_json_def)
  have "reply_text (Fake_Requests body) = Inr body"
    by (simp add: reply_text_def)
  then have "fetch_body w (Fake_Requests body) ?s1 =
      (Inl err,
       ?s1\<lparr>trace := trace ?s1 @ (if debug ?s1 then [Print (Body body)] else []) @
                        [Print (CouldntParseJson body)]\<rparr>)"
    using fetch_body_unparsable [OF paths parse assms(5), of body err] by blast
  then show ?thesis
    using fetch_local_body [OF assms(1,2), of w] by simp
qed

lemma local_image_download:
  "fst (fetch_image demo_world picture_url
         (local_image_portal\<lparr>trace := [Print UsingLocalfile]\<rparr>)) = Inr () \<and>
   filter is_network (trace (snd (fetch_image demo_world picture_url
         (local_image_portal\<lparr>trace := [Print UsingLocalfile]\<rparr>)))) =
     [HttpGet (IMAGE_CONVERTER_SERVICE @ ''http://example.com/pic.jpg'') True] \<and>
   \<not> success_callback (snd (fetch_image demo_world picture_url
         (local_image_portal\<lparr>trace := [Print UsingLocalfile]\<rparr>))) \<and>
   text_areas (snd (fetch_image demo_world picture_url
         (local_image_portal\<lparr>trace := [Print UsingLocalfile]\<rparr>))) = []"
  by code_simp

text \<open>
  Claim C1. An object that uses the local file, with an image path configured and a
  local file whose JSON names a picture: the data comes from the file without any
  network operation, but \<open>fetch\<close> then calls \<open>wget\<close> for the picture, which issues an HTTP
  GET to the image converter. The network operations recorded are not none.
\<close>

theorem fetch_local_file_downloads_image:
  "map_option (\<lambda>rs. filter is_network (trace (snd rs))) (fetch demo_world local_image_portal) =
     Some [HttpGet (IMAGE_CONVERTER_SERVICE @ ''http://example.com/pic.jpg'') True]"
proof -
  let ?r = "Fake_Requests image_body"
  let ?s0 = "local_image_portal\<lparr>trace := [Print UsingLocalfile]\<rparr>"
  let ?s1 = "snd (fetch_image demo_world picture_url ?s0)"
  have cfg: "uselocal local_image_portal" "files local_image_portal LOCALFILE = Some image_body"
    "\<not> debug local_image_portal" "trace local_image_portal = []"
    by (simp_all add: local_image_portal_def fresh_portal_def)
  have start: "fetch demo_world local_image_portal = Some (fetch_body demo_world ?r ?s0)"
    using fetch_local_body [OF cfg(1,2), of demo_world] cfg(3,4) by simp
  have dbg: "fetch_debug ?r ?s0 = (Inr (), ?s0)"
    by (simp add: fetch_debug_def local_image_portal_def fresh_portal_def)
  have parse: "fetch_parse demo_world ?r ?s0 = (Inr image_doc, ?s0)"
    by (simp add: fetch_parse_def reply_json_def local_image_portal_def fresh_portal_def
        demo_world_def)
  have vals: "fetch_values demo_world ?r image_doc ?s0 = (Inr (PStr image_body), ?s0)"
    by (simp add: fetch_values_def reply_text_def local_image_portal_def fresh_portal_def)
  have found: "fetch_image_url demo_world image_doc ?s0 = (Inr picture_url, ?s0)"
    by (simp add: fetch_image_url_def json_traverse_def local_image_portal_def fresh_portal_def
        image_doc_def picture_url_def)
  have image: "fetch_image demo_world picture_url ?s0 = (Inr (), ?s1)"
    using local_image_download by (simp add: prod_eq_iff)
  have cb: "fetch_callback demo_world (PStr image_body) ?s1 = (Inr (), ?s1)"
    using local_image_download by (simp add: fetch_callback_def)
  have render: "fetch_render demo_world (PStr image_body) ?s1 = (Inr (), ?s1)"
    using local_image_download by (simp add: fetch_render_def)
  have "fetch_body demo_world ?r ?s0 = (Inr (fetch_result (PStr image_body)), ?s1)"
    unfolding fetch_body_def
    by (simp only:
        and_then_Inr [of "fetch_debug ?r", OF dbg]
        and_then_Inr [of "fetch_parse demo_world ?r", OF parse]
        and_then_Inr [of "fetch_values demo_world ?r image_doc", OF vals]
        and_then_Inr [of "fetch_image_url demo_world image_doc", OF found]
        and_then_Inr [of "fetch_image demo_world picture_url", OF image]
        and_then_Inr [of "fetch_callback demo_world (PStr image_body)", OF cb]
        and_then_Inr [of "fetch_render demo_world (PStr image_body)", OF render])
  then show ?thesis
    using start local_image_download by simp
qed

text \<open>
  Without an image path, a call that uses the local file adds no network operation:
  every step after the response is quiet.
\<close>

lemma quiet_refl: "quiet s s"
  by (simp add: quiet_def)

lemma quiet_trans: "quiet s s1 \<Longrightarrow> quiet s1 s2 \<Longrightarrow> quiet s s2"
  by (simp add: quiet_def)

lemma quiet_emit: "\<not> is_network e \<Longrightarrow> quiet s (emit e s)"
  by (simp add: quiet_def network_ops_def emit_def)

lemma quiet_print: "quiet s (print m s)"
  by (simp add: print_def quiet_emit is_network_def)

lemma quiet_neo_status: "quiet s (neo_status v s)"
  by (simp add: neo_status_def quiet_emit quiet_refl is_network_def)

lemma quiet_set_background: "quiet s (snd (set_background w f s))"
  by (simp add: set_background_def Let_def print_def emit_def quiet_def network_ops_def
      is_network_def split: option.split)

lemma quiet_place_text_area: "quiet s (snd (place_text_area string index items s))"
  by (simp add: place_text_area_def Let_def quiet_def network_ops_def
      split: sum.split option.split)

lemma quiet_set_text: "quiet s (snd (set_text w val index s))"
proof -
  have splash: "quiet s (snd (place_text_area string index items (s\<lparr>splash := sp\<rparr>)))"
    for string items sp
    using quiet_place_text_area [of "s\<lparr>splash := sp\<rparr>" string index items]
    by (simp add: quiet_def network_ops_def)
  have made: "quiet s (snd (place_text_area string index [] (print m s)))" for string m
    using quiet_trans [OF quiet_print quiet_place_text_area] .
  show ?thesis
    by (simp add: set_text_def Let_def quiet_refl splash made case_prod_beta
        split: sum.split option.split)
qed

lemma quiet_after_print: "quiet s s1 \<Longrightarrow> quiet s (print m s1)"
  using quiet_trans quiet_print by blast

lemma quiet_after_set_text: "quiet s s1 \<Longrightarrow> quiet s (snd (set_text w v i s1))"
  using quiet_trans quiet_set_text by blast

lemma quiet_render_slot: "quiet s (snd (render_slot w values i s))"
  by (simp add: render_slot_def Let_def quiet_refl quiet_after_print quiet_after_set_text
      split: sum.split pyval.split exn.split)

lemma quiet_render_slots: "quiet s (snd (render_slots w values js s))"
proof (induction js arbitrary: s)
  case Nil
  show ?case by (simp add: quiet_refl)
next
  case (Cons i js)
  obtain r s1 where step: "render_slot w values i s = (r, s1)" by force
  have s1: "quiet s s1" using quiet_render_slot [of s w "values" i] step by simp
  show ?case
  proof (cases r)
    case (Inl e)
    with step s1 show ?thesis by simp
  next
    case (Inr u)
    with step have "snd (render_slots w values (i # js) s) = snd (render_slots w values js s1)"
      by simp
    then show ?thesis using s1 Cons.IH [of s1] quiet_trans by metis
  qed
qed

lemma quiet_fetch_render: "quiet s (snd (fetch_render w values s))"
  by (simp add: fetch_render_def quiet_render_slots quiet_refl)

lemma quiet_fetch_callback: "quiet s (snd (fetch_callback w values s))"
  by (simp add: fetch_callback_def quiet_emit quiet_refl is_network_def split: option.split)

lemma quiet_fetch_debug: "quiet s (snd (fetch_debug r s))"
  by (simp add: fetch_debug_def quiet_print quiet_refl split: sum.split)

lemma quiet_fetch_parse: "quiet s (snd (fetch_parse w r s))"
  by (simp add: fetch_parse_def quiet_print quiet_emit quiet_refl is_network_def
      split: sum.split)

lemma quiet_fetch_values: "quiet s (snd (fetch_values w r json_out s))"
  by (simp add: fetch_values_def quiet_refl split: sum.split)

lemma fetch_image_url_none:
  "\<not> truthy (image_json_path s) \<Longrightarrow> fetch_image_url w json_out s = (Inr PNone, s)"
  by (simp add: fetch_image_url_def)

lemma fetch_image_none: "fetch_image w PNone s = (Inr (), s)"
  by (simp add: fetch_image_def)

lemma quiet_fetch_body:
  assumes "\<not> truthy (image_json_path s)"
  shows "quiet s (snd (fetch_body w r s))"
proof -
  obtain r0 s0 where p0: "fetch_debug r s = (r0, s0)" by force
  have q0: "quiet s s0" using quiet_fetch_debug [of s r] p0 by simp
  show ?thesis
  proof (cases r0)
    case (Inl e)
    then show ?thesis using p0 q0 by (simp add: fetch_body_def and_then_def)
  next
    case dbg: (Inr u0)
    obtain r1 s1 where p1: "fetch_parse w r s0 = (r1, s1)" by force
    have q1: "quiet s s1"
      using quiet_fetch_parse [of s0 w r] p1 q0 quiet_trans by fastforce
    show ?thesis
    proof (cases r1)
      case (Inl e)
      then show ?thesis using p0 dbg p1 q1 by (simp add: fetch_body_def and_then_def)
    next
      case (Inr json_out)
      obtain r2 s2 where p2: "fetch_values w r json_out s1 = (r2, s2)" by force
      have q2: "quiet s s2"
        using quiet_fetch_values [of s1 w r json_out] p2 q1 quiet_trans by fastforce
      show ?thesis
      proof (cases r2)
        case (Inl e)
        then show ?thesis
          using p0 dbg p1 p2 q2 Inr by (simp add: fetch_body_def and_then_def)
      next
        case vs: (Inr vals)
        have no_image: "\<not> truthy (image_json_path s2)"
          using q2 assms by (simp add: quiet_def)
        obtain r5 s5 where p5: "fetch_callback w vals s2 = (r5, s5)" by force
        have q5: "quiet s s5"
          using quiet_fetch_callback [of s2 w vals] p5 q2 quiet_trans by fastforce
        have rest: "fetch_body w r s =
            (case r5 of Inl e \<Rightarrow> (Inl e, s5)
             | Inr u \<Rightarrow> (case fetch_render w vals s5 of
                 (Inl e, s6) \<Rightarrow> (Inl e, s6) | (Inr u, s6) \<Rightarrow> (Inr (fetch_result vals), s6)))"
          using p0 dbg p1 Inr p2 vs p5 fetch_image_url_none [OF no_image] fetch_image_none
          by (simp add: fetch_body_def and_then_def split: sum.split)
        have q6: "quiet s (snd (fetch_render w vals s5))"
          using quiet_fetch_render q5 quiet_trans by blast
        show ?thesis
          unfolding rest using q5 q6 by (simp add: case_prod_beta split: sum.split)
      qed
    qed
  qed
qed

lemma fetch_local_without_image_no_network:
  assumes "uselocal s" and "\<not> truthy (image_json_path s)" and "fetch w s = Some (r, s')"
  shows "filter is_network (trace s') = filter is_network (trace s)"
proof (cases "files s LOCALFILE")
  case None
  then have "s' = print UsingLocalfile (if debug s then print FreeMem s else s)"
    using assms(1,3)
    by (auto simp: fetch_def fetch_response_def Let_def print_def emit_def split: if_splits)
  then show ?thesis by (simp add: print_def emit_def is_network_def)
next
  case (Some body)
  let ?s0 = "s\<lparr>trace := trace s @
          (if debug s then [Print FreeMem, Print UsingLocalfile]
           else [Print UsingLocalfile])\<rparr>"
  have "fetch w s = Some (fetch_body w (Fake_Requests body) ?s0)"
    using fetch_local_body [OF assms(1) Some] .
  then have s': "s' = snd (fetch_body w (Fake_Requests body) ?s0)"
    using assms(3) by (metis option.inject snd_conv)
  have "\<not> truthy (image_json_path ?s0)" using assms(2) by simp
  then have "quiet ?s0 s'" unfolding s' by (rule quiet_fetch_body)
  then show ?thesis by (simp add: quiet_def network_ops_def is_network_def)
qed

text \<open>
  Claim C4. The image path \<open>['data', 0, 'url']\<close> on a document whose \<open>data\<close> is an object:
  the walk fails with the missing key 0, and the handler, which builds its message
  with \<open>+\<close>, raises \<open>TypeError\<close>. \<open>fetch\<close> ends with that error instead of going on.
\<close>

theorem fetch_missing_integer_key_raises:
  "json_traverse error_doc (image_json_path local_error_portal) = Inl (KeyError (PInt 0)) \<and>
   map_option fst (fetch demo_world local_error_portal) = Some (Inl TypeError)"
  by code_simp

text \<open>
  When the missing key is a string, the handler prints it and sets the default
  background; no image address is found and \<open>fetch\<close> goes on, unless setting the
  background itself fails.
\<close>

lemma fetch_image_url_missing_string_key:
  assumes "truthy (image_json_path s)"
    and "json_traverse json_out (image_json_path s) = Inl (KeyError (PStr k))"
  shows "fetch_image_url w json_out s =
           (case set_background w (default_bg s) (print (ErrorFindingImage k) s) of
              (Inl e, s') \<Rightarrow> (Inl e, s') | (Inr u, s') \<Rightarrow> (Inr PNone, s'))"
  using assms by (simp add: fetch_image_url_def and_then_def print_def emit_def)

text \<open>
  Claim C2 as stated fails. Where files cannot be written, saving the downloaded
  picture raises \<open>OSError\<close>, which is no \<open>ValueError\<close>: it leaves \<open>fetch\<close>.
\<close>

theorem fetch_image_io_error_propagates:
  "map_option fst (fetch readonly_world network_image_portal) = Some (Inl OSError)"
  by code_simp

text \<open>The image step never changes which background is the default.\<close>

lemma wget_chunks_default_bg:
  "default_bg (snd (wget_chunks f cl rem chunks s)) = default_bg s"
  by (induction f cl rem chunks s rule: wget_chunks.induct)
     (simp_all add: Let_def neo_status_def print_def emit_def)

lemma wget_default_bg: "default_bg (snd (wget w u f s)) = default_bg s"
  by (simp add: wget_def Let_def neo_status_def print_def emit_def case_prod_beta
      wget_chunks_default_bg split: sum.split option.split)

lemma set_background_default_bg: "default_bg (snd (set_background w f s)) = default_bg s"
  by (simp add: set_background_def Let_def print_def emit_def split: option.split)

lemma image_try_default_bg: "default_bg (snd (image_try w image_url s)) = default_bg s"
  by (cases image_url)
     (simp_all add: image_try_def Let_def and_then_def print_def emit_def case_prod_beta
        wget_default_bg set_background_default_bg split: sum.split)

text \<open>
  Claim C2, amended. In the image step of \<open>fetch\<close>, a \<open>ValueError\<close> with a message that
  the download or the display of the cached picture raises is caught: the message is
  printed and \<open>set_background\<close> is called with the configured default background, and
  the step ends as that call ends. An exception that is no \<open>ValueError\<close> is not caught:
  the step ends with it, in the state it was raised in.
\<close>

theorem fetch_image_catches_value_error:
  assumes "truthy image_url"
  shows "(image_try w image_url s = (Inl (ValueError (Some msg)), s1) \<longrightarrow>
            fetch_image w image_url s =
              set_background w (default_bg s) (print (ErrorDisplayingCached msg) s1)) \<and>
         (image_try w image_url s = (Inl e, s2) \<longrightarrow> \<not> is_value_error e \<longrightarrow>
            fetch_image w image_url s = (Inl e, s2))"
proof -
  have "default_bg s1 = default_bg s"
    if "image_try w image_url s = (Inl (ValueError (Some msg)), s1)"
    using image_try_default_bg [of w image_url s] that by simp
  then show ?thesis
    using assms by (simp add: fetch_image_def is_value_error_def first_arg_def)
qed

text \<open>
  An exception that ends the image step ends \<open>fetch\<close>: there is no handler around the
  step, and nothing after it is run.
\<close>

lemma fetch_body_image_error:
  assumes "fetch_debug r s = (Inr (), sa)" and "fetch_parse w r sa = (Inr json_out, sb)"
    and "fetch_values w r json_out sb = (Inr vals, sc)"
    and "fetch_image_url w json_out sc = (Inr image_url, sd)"
    and "fetch_image w image_url sd = (Inl e, se)"
  shows "fetch_body w r s = (Inl e, se)"
  unfolding fetch_body_def
  by (simp only:
      and_then_Inr [of "fetch_debug r", OF assms(1)]
      and_then_Inr [of "fetch_parse w r", OF assms(2)]
      and_then_Inr [of "fetch_values w r json_out", OF assms(3)]
      and_then_Inr [of "fetch_image_url w json_out", OF assms(4)]
      and_then_Inl [of "fetch_image w image_url", OF assms(5)])

lemma jpeg_image_try:
  "fst (image_try jpeg_world picture_url jpeg_portal) = Inl (ValueError (Some ''Invalid BMP file''))"
  by code_simp

lemma jpeg_restore:
  "fst (set_background jpeg_world (default_bg jpeg_portal)
      (print (ErrorDisplayingCached ''Invalid BMP file'')
        (snd (image_try jpeg_world picture_url jpeg_portal)))) = Inr () \<and>
   map widget (bg_group (snd (set_background jpeg_world (default_bg jpeg_portal)
      (print (ErrorDisplayingCached ''Invalid BMP file'')
        (snd (image_try jpeg_world picture_url jpeg_portal)))))) = [Sprite 1]"
  by code_simp

lemma readonly_image_try:
  "fst (image_try readonly_world picture_url jpeg_portal) = Inl OSError"
  by code_simp

theorem fetch_image_catches_value_error_witness:
  "truthy picture_url \<and>
   fst (image_try jpeg_world picture_url jpeg_portal) =
     Inl (ValueError (Some ''Invalid BMP file'')) \<and>
   fst (fetch_image jpeg_world picture_url jpeg_portal) = Inr () \<and>
   map widget (bg_group (snd (fetch_image jpeg_world picture_url jpeg_portal))) = [Sprite 1] \<and>
   fst (image_try readonly_world picture_url jpeg_portal) = Inl OSError \<and>
   \<not> is_value_error OSError \<and>
   fetch_image readonly_world picture_url jpeg_portal =
     (Inl OSError, snd (image_try readonly_world picture_url jpeg_portal))"
proof -
  have a: "truthy picture_url" by (simp add: picture_url_def)
  have b: "image_try jpeg_world picture_url jpeg_portal =
      (Inl (ValueError (Some ''Invalid BMP file'')),
       snd (image_try jpeg_world picture_url jpeg_portal))"
    using jpeg_image_try by (simp add: prod_eq_iff)
  have c: "image_try readonly_world picture_url jpeg_portal =
      (Inl OSError, snd (image_try readonly_world picture_url jpeg_portal))"
    using readonly_image_try by (simp add: prod_eq_iff)
  have d: "\<not> is_value_error OSError" by (simp add: is_value_error_def)
  note caught = fetch_image_catches_value_error [OF a, of jpeg_world jpeg_portal
      "''Invalid BMP file''" "snd (image_try jpeg_world picture_url jpeg_portal)"
      OSError "snd (image_try jpeg_world picture_url jpeg_portal)"]
  note passed = fetch_image_catches_value_error [OF a, of readonly_world jpeg_portal
      "''Invalid BMP file''" "snd (image_try readonly_world picture_url jpeg_portal)"
      OSError "snd (image_try readonly_world picture_url jpeg_portal)"]
  have "fetch_image jpeg_world picture_url jpeg_portal =
      set_background jpeg_world (default_bg jpeg_portal)
        (print (ErrorDisplayingCached ''Invalid BMP file'')
          (snd (image_try jpeg_world picture_url jpeg_portal)))"
    using caught b by blast
  moreover have "fetch_image readonly_world picture_url jpeg_portal =
      (Inl OSError, snd (image_try readonly_world picture_url jpeg_portal))"
    using passed c d by blast
  ultimately show ?thesis
    using a jpeg_image_try readonly_image_try d jpeg_restore by simp
qed

end
